theory Spec2Isabelle
  imports Complex_Main "HOL-Library.Word"
begin

section \<open>Values exchanged between the notebooks and the libraries they call\<close>

text \<open>
  The two notebooks (text-to-image diffusion and inpainting) are straight-line Python
  scripts over libraries that are not part of them: \<open>stablefused\<close>, \<open>torch\<close>,
  \<open>numpy\<close>, \<open>PIL\<close> and the IPython display. Every exception a notebook run can end
  with is a Python exception; the ones the notebooks' own expressions can raise are
  named, every other one is carried by name.
\<close>

datatype error =
    FileNotFoundError string
  | OutOfMemoryError
  | ValueError
  | AxisError
  | IndexError
  | TypeError
  | OtherError string

text \<open>
  A numpy array of dtype uint8: its shape and its elements in row-major order.
  \<open>np.array\<close> of a PIL image in mode RGB has shape \<open>(H, W, 3)\<close>, in mode L shape
  \<open>(H, W)\<close>.
\<close>

record ndarray =
  shape :: "nat list"
  data :: "8 word list"

definition block :: "nat list \<Rightarrow> 'a list \<Rightarrow> nat \<Rightarrow> 'a list" where
  \<comment> \<open>the elements of the \<open>i\<close>-th sub-array along axis 0, the sub-arrays having shape \<open>ds\<close>\<close>
  "block ds xs i = take (prod_list ds) (drop (i * prod_list ds) xs)"

definition np_expand_dims :: "ndarray \<Rightarrow> ndarray" where
  \<comment> \<open>\<open>np.expand_dims(a, axis=0)\<close>\<close>
  "np_expand_dims a = a\<lparr>shape := 1 # shape a\<rparr>"

definition np_repeat :: "nat \<Rightarrow> ndarray \<Rightarrow> error + ndarray" where
  \<comment> \<open>\<open>a.repeat(n, axis=0)\<close>: each sub-array along axis 0 is repeated \<open>n\<close> times in place;
      an array without an axis 0 raises\<close>
  "np_repeat n a =
     (case shape a of
        [] \<Rightarrow> Inl AxisError
      | d # ds \<Rightarrow>
          Inr \<lparr>shape = (d * n) # ds,
               data = concat (map (\<lambda>i. concat (replicate n (block ds (data a) i))) [0..<d])\<rparr>)"

definition np_reshape :: "nat list \<Rightarrow> ndarray \<Rightarrow> error + ndarray" where
  \<comment> \<open>\<open>a.reshape(*new_shape)\<close>: the number of elements must not change\<close>
  "np_reshape new_shape a =
     (if prod_list new_shape = prod_list (shape a) then Inr (a\<lparr>shape := new_shape\<rparr>)
      else Inl ValueError)"

definition np_index :: "ndarray \<Rightarrow> nat \<Rightarrow> error + ndarray" where
  \<comment> \<open>\<open>a[i]\<close> for \<open>i \<ge> 0\<close>\<close>
  "np_index a i =
     (case shape a of
        [] \<Rightarrow> Inl IndexError
      | d # ds \<Rightarrow>
          if i < d then Inr \<lparr>shape = ds, data = block ds (data a) i\<rparr> else Inl IndexError)"

section \<open>Python values, external calls and notebook runs\<close>

text \<open>
  The values a notebook variable can hold: Python data, numpy arrays, named constants of
  a library (\<open>torch.float16\<close>) and opaque objects created by a library (a pipeline
  handle, a PIL image, a video), known only by an identity.
\<close>

datatype pyval =
    PNone
  | PStr string
  | PInt int
  | PFloat rat
  | PBool bool
  | PList "pyval list"
  | PArr ndarray
  | PName string
  | PObj nat

type_synonym kwargs = "(string \<times> pyval) list"

text \<open>
  Everything a notebook does to the outside: one constructor per kind of statement that
  leaves the notebook's own expressions, with the arguments the notebook passes.
\<close>

datatype event =
    PipInstall "string list"
  | Import string
  | Construct string kwargs
  | Method pyval string
  | ManualSeed int
  | RandomSeed int
  | ImageOpen string
  | Convert pyval string
  | NpArray pyval
  | Pipeline pyval kwargs
  | ImageGrid pyval nat nat
  | PilToVideo pyval string nat
  | Video string bool
  | Display pyval
  | Out pyval
  | Print string

text \<open>
  The trace of a run lists the events in the order they happened, each with the
  exception it raised, if any. The libraries are a parameter: a function from the call
  and the state of the outside world (files, random generators, accelerator memory) to
  the call's result and the new state.
\<close>

type_synonym trace = "(event \<times> error option) list"

record 'w lib =
  call :: "event \<Rightarrow> 'w \<Rightarrow> (error + pyval) \<times> 'w"
  np_array :: "pyval \<Rightarrow> 'w \<Rightarrow> (error + ndarray) \<times> 'w"

type_synonym ('w, 'a) run = "'w \<times> trace \<Rightarrow> (error + 'a) \<times> 'w \<times> trace"

definition raised :: "error + 'a \<Rightarrow> error option" where
  "raised r = (case r of Inl e \<Rightarrow> Some e | Inr _ \<Rightarrow> None)"

definition ret :: "'a \<Rightarrow> ('w, 'a) run" where
  "ret x = (\<lambda>s. (Inr x, s))"

definition lift :: "error + 'a \<Rightarrow> ('w, 'a) run" where
  \<comment> \<open>a Python expression of the notebook itself, which returns or raises\<close>
  "lift r = (\<lambda>s. (r, s))"

definition bindE :: "('w, 'a) run \<Rightarrow> ('a \<Rightarrow> ('w, 'b) run) \<Rightarrow> ('w, 'b) run" where
  \<comment> \<open>statement sequencing: the notebooks have no \<open>try\<close>, so a raised exception ends the run\<close>
  "bindE m f = (\<lambda>s. case m s of (Inl e, s') \<Rightarrow> (Inl e, s') | (Inr x, s') \<Rightarrow> f x s')"

definition seqE :: "('w, 'a) run \<Rightarrow> ('w, 'b) run \<Rightarrow> ('w, 'b) run" where
  "seqE m n = bindE m (\<lambda>_. n)"

definition ext :: "event \<Rightarrow> ('w \<Rightarrow> (error + 'a) \<times> 'w) \<Rightarrow> ('w, 'a) run" where
  \<comment> \<open>a call into a library\<close>
  "ext ev f = (\<lambda>(w, t). case f w of (r, w') \<Rightarrow> (r, w', t @ [(ev, raised r)]))"

definition shell :: "event \<Rightarrow> ('w \<Rightarrow> (error + 'a) \<times> 'w) \<Rightarrow> ('w, unit) run" where
  \<comment> \<open>a \<open>!command\<close> line: IPython runs it and raises nothing, whatever its exit status\<close>
  "shell ev f = (\<lambda>(w, t). case f w of (r, w') \<Rightarrow> (Inr (), w', t @ [(ev, None)]))"

definition emit :: "event \<Rightarrow> ('w, unit) run" where
  \<comment> \<open>output written by the notebook itself\<close>
  "emit ev = (\<lambda>(w, t). (Inr (), w, t @ [(ev, None)]))"

definition out :: "pyval \<Rightarrow> ('w, unit) run" where
  \<comment> \<open>the value of a cell's last expression is shown unless it is \<open>None\<close>\<close>
  "out v = (if v = PNone then ret () else emit (Out v))"

fun mapE :: "('a \<Rightarrow> ('w, 'b) run) \<Rightarrow> 'a list \<Rightarrow> ('w, 'b list) run" where
  \<comment> \<open>a \<open>for\<close> loop over a list that appends one result per iteration\<close>
  "mapE f [] = ret []"
| "mapE f (x # xs) = bindE (f x) (\<lambda>y. bindE (mapE f xs) (\<lambda>ys. ret (y # ys)))"

definition outcome :: "(error + 'a) \<times> 'w \<times> trace \<Rightarrow> error + 'a" where
  "outcome r = fst r"

definition trace_of :: "(error + 'a) \<times> 'w \<times> trace \<Rightarrow> trace" where
  "trace_of r = snd (snd r)"

definition events :: "trace \<Rightarrow> event list" where
  "events t = map fst t"

subsection \<open>Python expressions of the notebooks\<close>

definition py_getitem0 :: "pyval \<Rightarrow> error + pyval" where
  \<comment> \<open>\<open>v[0]\<close>\<close>
  "py_getitem0 v =
     (case v of
        PList [] \<Rightarrow> Inl IndexError
      | PList (x # _) \<Rightarrow> Inr x
      | PStr [] \<Rightarrow> Inl IndexError
      | PStr (c # _) \<Rightarrow> Inr (PStr [c])
      | PArr a \<Rightarrow> (case np_index a 0 of Inl e \<Rightarrow> Inl e | Inr b \<Rightarrow> Inr (PArr b))
      | _ \<Rightarrow> Inl TypeError)"

definition py_iter :: "pyval \<Rightarrow> error + pyval list" where
  \<comment> \<open>the elements of an iterable, in order\<close>
  "py_iter v =
     (case v of
        PList xs \<Rightarrow> Inr xs
      | PStr s \<Rightarrow> Inr (map (\<lambda>c. PStr [c]) s)
      | PArr a \<Rightarrow>
          (case shape a of
             [] \<Rightarrow> Inl TypeError
           | d # ds \<Rightarrow> Inr (map (\<lambda>i. PArr \<lparr>shape = ds, data = block ds (data a) i\<rparr>) [0..<d]))
      | _ \<Rightarrow> Inl TypeError)"

fun py_iter_all :: "pyval list \<Rightarrow> error + pyval list list" where
  "py_iter_all [] = Inr []"
| "py_iter_all (v # vs) =
     (case py_iter v of
        Inl e \<Rightarrow> Inl e
      | Inr xs \<Rightarrow> (case py_iter_all vs of Inl e \<Rightarrow> Inl e | Inr xss \<Rightarrow> Inr (xs # xss)))"

definition py_zip :: "'a list list \<Rightarrow> 'a list list" where
  \<comment> \<open>\<open>zip(xs1, ..., xsk)\<close>: as many tuples as the shortest argument has elements\<close>
  "py_zip xss =
     (if xss = [] then []
      else map (\<lambda>j. map (\<lambda>xs. xs ! j) xss) [0..<min_list (map length xss)])"

definition py_zip_star :: "pyval \<Rightarrow> error + pyval list" where
  \<comment> \<open>\<open>zip(*v)\<close>\<close>
  "py_zip_star v =
     (case py_iter v of
        Inl e \<Rightarrow> Inl e
      | Inr vs \<Rightarrow>
          (case py_iter_all vs of Inl e \<Rightarrow> Inl e | Inr xss \<Rightarrow> Inr (map PList (py_zip xss))))"

fun str_of_nat :: "nat \<Rightarrow> string" where
  \<comment> \<open>\<open>str(n)\<close>\<close>
  "str_of_nat n =
     (if n < 10 then [char_of (48 + n)]
      else str_of_nat (n div 10) @ [char_of (48 + n mod 10)])"

section \<open>Input preparation of the inpainting notebook\<close>

text \<open>
  \<^verbatim>\<open>
  start_image = np.expand_dims(start_image, axis=0).repeat(num_images, axis=0)
  mask_image = np.expand_dims(mask_image, axis=0).repeat(num_images, axis=0)
  mask_image = mask_image.reshape(*mask_image.shape, 1)
  \<close>
  with \<open>num_images = len(prompt)\<close>.
\<close>

definition batch_start_image :: "nat \<Rightarrow> ndarray \<Rightarrow> error + ndarray" where
  "batch_start_image num_images start_image =
     np_repeat num_images (np_expand_dims start_image)"

definition batch_mask_image :: "nat \<Rightarrow> ndarray \<Rightarrow> error + ndarray" where
  "batch_mask_image num_images mask_image =
     (case np_repeat num_images (np_expand_dims mask_image) of
        Inl e \<Rightarrow> Inl e
      | Inr m \<Rightarrow> np_reshape (shape m @ [1]) m)"

section \<open>Grid layouts\<close>

text \<open>
  Both notebooks tile a batch with \<open>image_grid(images, rows=2, cols=...)\<close>. The
  inpainting notebook computes \<open>cols = math.ceil(num_images / 2)\<close>, the text-to-image
  notebook \<open>cols = len(prompt) // 2\<close>. The true division is exact for every length a
  Python list can have, so it is taken over the reals.
\<close>

definition grid_rows :: nat where
  "grid_rows = 2"

definition inpaint_grid_cols :: "nat \<Rightarrow> nat" where
  "inpaint_grid_cols num_images = nat \<lceil>real num_images / 2\<rceil>"

definition text_to_image_grid_cols :: "nat \<Rightarrow> nat" where
  "text_to_image_grid_cols len_prompt = len_prompt div 2"

section \<open>The notebooks\<close>

text \<open>
  Each code cell is a run; a notebook runs its cells in order. The prompts, the negative
  prompt and the seed are the variables the notebooks invite the reader to change, so
  they are parameters; the other values are the notebooks' literals.
\<close>

definition lib_call :: "'w lib \<Rightarrow> event \<Rightarrow> ('w, pyval) run" where
  "lib_call L ev = ext ev (call L ev)"

definition pip_install :: "'w lib \<Rightarrow> ('w, unit) run" where
  \<comment> \<open>\<open>!pip install stablefused ipython\<close>\<close>
  "pip_install L =
     shell (PipInstall [''stablefused'', ''ipython''])
       (call L (PipInstall [''stablefused'', ''ipython'']))"

definition py_imports :: "'w lib \<Rightarrow> string list \<Rightarrow> ('w, unit) run" where
  "py_imports L modules = seqE (mapE (\<lambda>m. lib_call L (Import m)) modules) (ret ())"

definition enable_all :: "'w lib \<Rightarrow> pyval \<Rightarrow> ('w, unit) run" where
  \<comment> \<open>\<open>model.enable_attention_slicing(); model.enable_slicing(); model.enable_tiling()\<close>,
      the last one the cell's last expression\<close>
  "enable_all L model =
     seqE (lib_call L (Method model ''enable_attention_slicing''))
    (seqE (lib_call L (Method model ''enable_slicing''))
    (bindE (lib_call L (Method model ''enable_tiling'')) out))"

definition set_seeds :: "'w lib \<Rightarrow> int \<Rightarrow> ('w, unit) run" where
  \<comment> \<open>\<open>torch.manual_seed(seed); np.random.seed(seed)\<close>, the last one the cell's last
      expression\<close>
  "set_seeds L seed =
     seqE (lib_call L (ManualSeed seed)) (bindE (lib_call L (RandomSeed seed)) out)"

definition num_inference_steps :: int where
  "num_inference_steps = 20"

subsection \<open>Inpainting notebook\<close>

definition inpaint_model_id :: string where
  "inpaint_model_id = ''runwayml/stable-diffusion-inpainting''"

definition image_filename :: string where
  "image_filename = ''mechanical-robot-base-image.png''"

definition mask_filename :: string where
  "mask_filename = ''mask.png''"

definition inpaint_load_model :: "'w lib \<Rightarrow> ('w, pyval) run" where
  "inpaint_load_model L =
     bindE (lib_call L (Construct ''InpaintDiffusion''
              [(''model_id'', PStr inpaint_model_id), (''torch_dtype'', PName ''torch.float16'')]))
       (\<lambda>model. seqE (enable_all L model) (ret model))"

definition inpaint_load_images :: "'w lib \<Rightarrow> nat \<Rightarrow> ('w, ndarray \<times> ndarray) run" where
  "inpaint_load_images L num_images =
     bindE (lib_call L (ImageOpen image_filename)) (\<lambda>original_image.
     bindE (lib_call L (ImageOpen mask_filename)) (\<lambda>mask.
     bindE (lib_call L (Convert original_image ''RGB'')) (\<lambda>rgb.
     bindE (ext (NpArray rgb) (np_array L rgb)) (\<lambda>start_image.
     bindE (lib_call L (Convert mask ''L'')) (\<lambda>l.
     bindE (ext (NpArray l) (np_array L l)) (\<lambda>mask_image.
     bindE (lift (batch_start_image num_images start_image)) (\<lambda>start_image.
     bindE (lift (batch_mask_image num_images mask_image)) (\<lambda>mask_image.
     seqE (emit (Print ''Original and mask image:''))
    (bindE (lib_call L (ImageGrid (PList [original_image, mask]) 1 2)) (\<lambda>grid.
     seqE (out grid) (ret (start_image, mask_image))))))))))))"

definition inpaint_kwargs :: "string list \<Rightarrow> string \<Rightarrow> nat \<Rightarrow> ndarray \<Rightarrow> ndarray \<Rightarrow> kwargs" where
  "inpaint_kwargs prompt negative_prompt num_images start_image mask_image =
     [(''prompt'', PList (map PStr prompt)),
      (''negative_prompt'', PList (replicate num_images (PStr negative_prompt))),
      (''image'', PArr start_image),
      (''mask'', PArr mask_image),
      (''num_inference_steps'', PInt 20),
      (''start_step'', PInt 5),
      (''image_height'', PInt 512),
      (''image_width'', PInt 512),
      (''guidance_scale'', PFloat 10)]"

definition inpaint_show :: "'w lib \<Rightarrow> string list \<Rightarrow> nat \<Rightarrow> pyval \<Rightarrow> ('w, unit) run" where
  \<comment> \<open>\<open>for i, p in enumerate(prompt): print(f"{i+1}.\t{p}")\<close>, then the grid\<close>
  "inpaint_show L prompt num_images images =
     seqE (mapE (\<lambda>(i, p). emit (Print (str_of_nat (i + 1) @ ''.'' @ [CHR 0x09] @ p)))
             (enumerate 0 prompt))
       (bindE (lib_call L (ImageGrid images grid_rows (inpaint_grid_cols num_images))) out)"

definition inpaint_notebook :: "'w lib \<Rightarrow> string list \<Rightarrow> string \<Rightarrow> int \<Rightarrow> ('w, unit) run" where
  "inpaint_notebook L prompt negative_prompt seed =
     seqE (pip_install L)
    (seqE (py_imports L [''numpy'', ''torch'', ''math'', ''IPython.display'', ''PIL'',
                      ''stablefused'', ''stablefused.utils''])
    (bindE (inpaint_load_model L) (\<lambda>model.
     seqE (set_seeds L seed)
    (bindE (inpaint_load_images L (length prompt)) (\<lambda>(start_image, mask_image).
     bindE (lib_call L (Pipeline model
              (inpaint_kwargs prompt negative_prompt (length prompt) start_image mask_image)))
       (\<lambda>images. inpaint_show L prompt (length prompt) images))))))"

subsection \<open>Text-to-image notebook\<close>

definition text_to_image_model_id :: string where
  "text_to_image_model_id = ''runwayml/stable-diffusion-v1-5''"

definition video_path :: string where
  "video_path = ''text_to_image_diffusion.mp4''"

definition single_kwargs :: "string \<Rightarrow> kwargs" where
  "single_kwargs prompt =
     [(''prompt'', PStr prompt), (''num_inference_steps'', PInt num_inference_steps)]"

definition history_kwargs :: "string list \<Rightarrow> string \<Rightarrow> kwargs" where
  "history_kwargs prompt negative_prompt =
     [(''prompt'', PList (map PStr prompt)),
      (''negative_prompt'', PList (replicate (length prompt) (PStr negative_prompt))),
      (''num_inference_steps'', PInt num_inference_steps),
      (''guidance_scale'', PFloat 10),
      (''return_latent_history'', PBool True)]"

definition text_to_image_single :: "'w lib \<Rightarrow> pyval \<Rightarrow> string \<Rightarrow> ('w, unit) run" where
  \<comment> \<open>\<open>model(prompt=prompt, num_inference_steps=num_inference_steps)[0]\<close>\<close>
  "text_to_image_single L model prompt =
     bindE (lib_call L (Pipeline model (single_kwargs prompt)))
       (\<lambda>images. bindE (lift (py_getitem0 images)) out)"

definition text_to_image_grids :: "'w lib \<Rightarrow> nat \<Rightarrow> pyval \<Rightarrow> ('w, pyval list) run" where
  \<comment> \<open>\<open>for imgs in zip(*images): timestep_images.append(image_grid(imgs, rows=2, cols=len(prompt) // 2))\<close>\<close>
  "text_to_image_grids L len_prompt images =
     bindE (lift (py_zip_star images))
       (mapE (\<lambda>imgs. lib_call L (ImageGrid imgs grid_rows (text_to_image_grid_cols len_prompt))))"

definition text_to_image_video :: "'w lib \<Rightarrow> pyval list \<Rightarrow> ('w, unit) run" where
  \<comment> \<open>\<open>pil_to_video(timestep_images, path, fps=5)\<close>, then \<open>display(Video(path, embed=True))\<close>\<close>
  "text_to_image_video L timestep_images =
     bindE (lib_call L (PilToVideo (PList timestep_images) video_path 5)) (\<lambda>v.
     seqE (out v)
    (bindE (lib_call L (Video video_path True)) (\<lambda>video.
     bindE (lib_call L (Display video)) out)))"

definition text_to_image_notebook ::
    "'w lib \<Rightarrow> string \<Rightarrow> string list \<Rightarrow> string \<Rightarrow> int \<Rightarrow> ('w, unit) run" where
  "text_to_image_notebook L prompt0 prompt negative_prompt seed =
     seqE (pip_install L)
    (seqE (py_imports L [''numpy'', ''torch'', ''IPython.display'', ''stablefused'',
                      ''stablefused.utils''])
    (bindE (lib_call L (Construct ''TextToImageDiffusion''
              [(''model_id'', PStr text_to_image_model_id)])) (\<lambda>model.
     seqE (set_seeds L seed)
    (seqE (text_to_image_single L model prompt0)
    (seqE (enable_all L model)
    (bindE (lib_call L (Pipeline model (history_kwargs prompt negative_prompt))) (\<lambda>images.
     bindE (text_to_image_grids L (length prompt) images) (\<lambda>timestep_images.
     text_to_image_video L timestep_images))))))))"

subsection \<open>The values the notebooks are written with\<close>

definition negative_prompt_text :: string where
  "negative_prompt_text = ''cartoon, unrealistic, blur, boring background, deformed, disfigured, low resolution, unattractive''"

definition cityscape_prompt :: string where
  "cityscape_prompt = ''Cyberpunk cityscape with towering skyscrapers, neon signs, and flying cars.''"

definition castle_prompt :: string where
  "castle_prompt = ''Gothic painting of an ancient castle at night, with a full moon, gargoyles, and shadows''"

definition lion_prompt :: string where
  "lion_prompt = ''A lion in galaxies, spirals, nebulae, stars, smoke, iridescent, intricate detail, octane render, 8k''"

definition woman_prompt :: string where
  "woman_prompt = ''A close up image of an very beautiful woman, aesthetic, realistic, high quality''"

definition survivor_prompt :: string where
  "survivor_prompt = ''Concept art for a post-apocalyptic world with ruins, overgrown vegetation, and a lone survivor''"

definition creature_prompt :: string where
  "creature_prompt = ''Digital illustration of a mythical creature, high quality, realistic, 8k''"

definition creatures_prompt :: string where
  "creatures_prompt = ''Digital illustration of mythical creatures, high quality, realistic, 8k''"

definition dragon_prompt :: string where
  "dragon_prompt = ''Digital illustration of a dragon, high quality, realistic, 8k''"

definition ferocious_lion_prompt :: string where
  "ferocious_lion_prompt = ''Digital illustration of a ferocious lion, high quality, realistic, 8k''"

definition text_to_image_prompts :: "string list" where
  "text_to_image_prompts = [castle_prompt, lion_prompt, woman_prompt, survivor_prompt]"

definition inpaint_prompts :: "string list" where
  "inpaint_prompts = [creature_prompt, creatures_prompt, dragon_prompt, ferocious_lion_prompt]"

definition text_to_image_as_written :: "'w lib \<Rightarrow> ('w, unit) run" where
  "text_to_image_as_written L =
     text_to_image_notebook L cityscape_prompt text_to_image_prompts negative_prompt_text 1337"

definition inpaint_as_written :: "'w lib \<Rightarrow> ('w, unit) run" where
  "inpaint_as_written L = inpaint_notebook L inpaint_prompts negative_prompt_text 42"

section \<open>Library stand-ins for running the notebooks\<close>

text \<open>
  To run a notebook on concrete inputs the libraries have to answer. \<open>demo_lib\<close> is a
  stand-in in which every call succeeds: constructors and loaders return fresh objects,
  procedures return \<open>None\<close>, \<open>np.array\<close> returns a 1x1 RGB array or a 1x1
  single-channel array, and the pipeline returns a list with one object per prompt, or,
  with \<open>return_latent_history=True\<close>, one list of two snapshots per prompt. The other two
  fail where the notebooks' documentation expects failures: at a file load and inside
  the pipeline call.
\<close>

definition demo_pipeline :: "kwargs \<Rightarrow> pyval" where
  "demo_pipeline kw =
     (case map_of kw ''prompt'' of
        Some (PList ps) \<Rightarrow>
          if map_of kw ''return_latent_history'' = Some (PBool True)
          then PList (map (\<lambda>_. PList [PObj 10, PObj 11]) ps)
          else PList (map (\<lambda>_. PObj 11) ps)
      | _ \<Rightarrow> PList [PObj 11])"

definition demo_call :: "event \<Rightarrow> unit \<Rightarrow> (error + pyval) \<times> unit" where
  "demo_call ev w =
     (case ev of
        Construct _ _ \<Rightarrow> (Inr (PObj 1), w)
      | ImageOpen _ \<Rightarrow> (Inr (PObj 2), w)
      | Convert _ mode \<Rightarrow> (Inr (PObj (if mode = ''RGB'' then 3 else 4)), w)
      | Pipeline _ kw \<Rightarrow> (Inr (demo_pipeline kw), w)
      | ImageGrid _ _ _ \<Rightarrow> (Inr (PObj 5), w)
      | Video _ _ \<Rightarrow> (Inr (PObj 6), w)
      | _ \<Rightarrow> (Inr PNone, w))"

definition demo_np_array :: "pyval \<Rightarrow> unit \<Rightarrow> (error + ndarray) \<times> unit" where
  "demo_np_array v w =
     (if v = PObj 3 then (Inr \<lparr>shape = [1, 1, 3], data = [7, 8, 9]\<rparr>, w)
      else (Inr \<lparr>shape = [1, 1], data = [255]\<rparr>, w))"

definition demo_lib :: "unit lib" where
  "demo_lib = \<lparr>call = demo_call, np_array = demo_np_array\<rparr>"

definition missing_file_lib :: "unit lib" where
  "missing_file_lib =
     \<lparr>call = (\<lambda>ev w. case ev of ImageOpen f \<Rightarrow> (Inl (FileNotFoundError f), w)
                            | _ \<Rightarrow> demo_call ev w),
      np_array = demo_np_array\<rparr>"

definition out_of_memory_lib :: "unit lib" where
  "out_of_memory_lib =
     \<lparr>call = (\<lambda>ev w. case ev of Pipeline _ _ \<Rightarrow> (Inl OutOfMemoryError, w)
                            | _ \<Rightarrow> demo_call ev w),
      np_array = demo_np_array\<rparr>"

section \<open>Properties of traces\<close>

fun is_construct :: "event \<Rightarrow> bool" where
  "is_construct (Construct _ _) = True"
| "is_construct _ = False"

fun is_manual_seed :: "event \<Rightarrow> bool" where
  "is_manual_seed (ManualSeed _) = True"
| "is_manual_seed _ = False"

fun is_random_seed :: "event \<Rightarrow> bool" where
  "is_random_seed (RandomSeed _) = True"
| "is_random_seed _ = False"

fun is_pipeline :: "event \<Rightarrow> bool" where
  "is_pipeline (Pipeline _ _) = True"
| "is_pipeline _ = False"

fun is_result_grid :: "event \<Rightarrow> bool" where
  \<comment> \<open>the grids of generated images have two rows; the inpainting notebook's grid of its
      inputs has one\<close>
  "is_result_grid (ImageGrid _ rows _) = (rows = grid_rows)"
| "is_result_grid _ = False"

fun is_video_write :: "event \<Rightarrow> bool" where
  "is_video_write (PilToVideo _ _ _) = True"
| "is_video_write _ = False"

fun is_display :: "event \<Rightarrow> bool" where
  "is_display (Display _) = True"
| "is_display _ = False"

fun is_postprocess :: "event \<Rightarrow> bool" where
  "is_postprocess (ImageGrid _ _ _) = True"
| "is_postprocess (PilToVideo _ _ _) = True"
| "is_postprocess _ = False"

fun is_shown :: "event \<Rightarrow> bool" where
  \<comment> \<open>something reaches the screen: \<open>display(...)\<close> or the value of a cell\<close>
  "is_shown (Display _) = True"
| "is_shown (Out _) = True"
| "is_shown _ = False"

fun precedes :: "(event \<Rightarrow> bool) \<Rightarrow> (event \<Rightarrow> bool) \<Rightarrow> event list \<Rightarrow> bool" where
  \<comment> \<open>no \<open>X\<close> event happens before the first \<open>Y\<close> event\<close>
  "precedes Y X [] = True"
| "precedes Y X (e # es) = (if Y e then True else if X e then False else precedes Y X es)"

fun phase :: "event \<Rightarrow> nat option" where
  \<comment> \<open>the step of the flow "load model handle, set generation parameters, call pipeline,
      post-process, display" an event belongs to, if any\<close>
  "phase (Construct _ _) = Some 0"
| "phase (ManualSeed _) = Some 1"
| "phase (RandomSeed _) = Some 1"
| "phase (Pipeline _ _) = Some 2"
| "phase (ImageGrid _ _ _) = Some 3"
| "phase (PilToVideo _ _ _) = Some 3"
| "phase (Display _) = Some 4"
| "phase (Out _) = Some 4"
| "phase _ = None"

definition fixed_order :: "event list \<Rightarrow> bool" where
  \<comment> \<open>the steps happen in the order of the flow, none after a later one\<close>
  "fixed_order es = sorted (List.map_filter phase es)"

definition clean :: "trace \<Rightarrow> bool" where
  "clean t = list_all (\<lambda>(ev, r). r = None) t"

fun propagated :: "error option \<Rightarrow> trace \<Rightarrow> bool" where
  \<comment> \<open>a call that raised is the last event of the run, and the run ends with exactly the
      exception it raised\<close>
  "propagated r [] = True"
| "propagated r ((ev, None) # t) = propagated r t"
| "propagated r ((ev, Some e) # t) = (t = [] \<and> r = Some e)"

fun from_library :: "error option \<Rightarrow> trace \<Rightarrow> bool" where
  \<comment> \<open>a run that ends with an exception ends with the one its last call raised\<close>
  "from_library None t = True"
| "from_library (Some e) t = (t \<noteq> [] \<and> snd (last t) = Some e)"

definition recognized_options :: "string list" where
  \<comment> \<open>the options the specification lists, under the keywords they are passed by:
      prompt(s), negative prompt(s), inference step count, guidance scale, source image,
      mask image, starting step, target image dimensions, latent-state-history flag\<close>
  "recognized_options =
     [''prompt'', ''negative_prompt'', ''num_inference_steps'', ''guidance_scale'', ''image'',
      ''mask'', ''start_step'', ''image_height'', ''image_width'', ''return_latent_history'']"

fun call_is_recognized :: "event \<Rightarrow> bool" where
  "call_is_recognized (Construct cls kw) =
     (case map_of kw ''model_id'' of Some (PStr _) \<Rightarrow> True | _ \<Rightarrow> False)"
| "call_is_recognized (Pipeline model kw) =
     list_all (\<lambda>k. k \<in> set recognized_options) (map fst kw)"
| "call_is_recognized _ = True"

definition list_arg :: "nat \<Rightarrow> pyval option \<Rightarrow> bool" where
  \<comment> \<open>the keyword is passed, with a list of \<open>n\<close> elements\<close>
  "list_arg n v = (case v of Some (PList xs) \<Rightarrow> length xs = n | _ \<Rightarrow> False)"

definition array_arg :: "nat \<Rightarrow> pyval option \<Rightarrow> bool" where
  \<comment> \<open>the keyword is passed, with an array whose leading dimension is \<open>n\<close>\<close>
  "array_arg n v =
     (case v of
        Some (PArr a) \<Rightarrow> (case shape a of [] \<Rightarrow> False | d # _ \<Rightarrow> d = n)
      | _ \<Rightarrow> False)"

fun batched_call :: "bool \<Rightarrow> nat \<Rightarrow> event \<Rightarrow> bool" where
  \<comment> \<open>a pipeline call with \<open>n\<close> prompts, \<open>n\<close> negative prompts and, when inpainting, image
      and mask batches of \<open>n\<close> entries\<close>
  "batched_call inpainting n (Pipeline model kw) =
     (list_arg n (map_of kw ''prompt'')
      \<and> list_arg n (map_of kw ''negative_prompt'')
      \<and> (if inpainting
         then array_arg n (map_of kw ''image'') \<and> array_arg n (map_of kw ''mask'')
         else True))"
| "batched_call inpainting n _ = False"

fun single_call :: "event \<Rightarrow> bool" where
  \<comment> \<open>a pipeline call with one prompt, a string, and no negative prompt\<close>
  "single_call (Pipeline model kw) =
     (case map_of kw ''prompt'' of
        Some (PStr _) \<Rightarrow> map_of kw ''negative_prompt'' = None
      | _ \<Rightarrow> False)"
| "single_call _ = False"

definition single_or_batched :: "nat \<Rightarrow> event \<Rightarrow> bool" where
  "single_or_batched n ev = (single_call ev \<or> batched_call False n ev)"

fun from_library_or_result :: "error option \<Rightarrow> trace \<Rightarrow> bool" where
  \<comment> \<open>a run that ends with an exception ends with the one its last call raised, or with
      an \<open>IndexError\<close> or \<open>TypeError\<close> right after a pipeline call has returned (from
      indexing or unpacking what it returned)\<close>
  "from_library_or_result None t = True"
| "from_library_or_result (Some e) t =
     (t \<noteq> []
      \<and> (snd (last t) = Some e
         \<or> (snd (last t) = None \<and> is_pipeline (fst (last t))
            \<and> (e = IndexError \<or> e = TypeError))))"

subsection \<open>Assertions about runs\<close>

definition hoare ::
    "(trace \<Rightarrow> bool) \<Rightarrow> ('w, 'a) run \<Rightarrow> ('a \<Rightarrow> trace \<Rightarrow> bool) \<Rightarrow> (error \<Rightarrow> trace \<Rightarrow> bool) \<Rightarrow> bool" where
  \<comment> \<open>from a trace satisfying \<open>P\<close>, a run that returns \<open>x\<close> leaves a trace satisfying
      \<open>Q x\<close> and a run that raises \<open>e\<close> leaves one satisfying \<open>E e\<close>\<close>
  "hoare P m Q E =
     (\<forall>w t. P t \<longrightarrow>
        (case m (w, t) of (Inl e, w', t') \<Rightarrow> E e t' | (Inr x, w', t') \<Rightarrow> Q x t'))"

definition keeps :: "(trace \<Rightarrow> bool) \<Rightarrow> (error \<Rightarrow> trace \<Rightarrow> bool) \<Rightarrow> ('w, 'a) run \<Rightarrow> bool" where
  "keeps P E m = hoare P m (\<lambda>_. P) E"

definition every :: "(event \<Rightarrow> bool) \<Rightarrow> trace \<Rightarrow> bool" where
  "every G t = list_all G (events t)"

definition ended :: "error \<Rightarrow> trace \<Rightarrow> bool" where
  "ended e t = (clean t \<or> (\<exists>t0 ev. t = t0 @ [(ev, Some e)] \<and> clean t0))"

definition ended_in_call :: "error \<Rightarrow> trace \<Rightarrow> bool" where
  "ended_in_call e t = (\<exists>t0 ev. t = t0 @ [(ev, Some e)] \<and> clean t0)"

definition after_pipeline :: "trace \<Rightarrow> bool" where
  "after_pipeline t = (clean t \<and> t \<noteq> [] \<and> is_pipeline (fst (last t)))"

definition ended_in_call_or_result :: "error \<Rightarrow> trace \<Rightarrow> bool" where
  "ended_in_call_or_result e t =
     (ended_in_call e t \<or> (after_pipeline t \<and> (e = IndexError \<or> e = TypeError)))"

definition seen :: "(event \<Rightarrow> bool) \<Rightarrow> (event \<Rightarrow> bool) \<Rightarrow> bool \<Rightarrow> trace \<Rightarrow> bool" where
  "seen Y X b t = (precedes Y X (events t) \<and> (b \<longrightarrow> list_ex Y (events t)))"

definition flag ::
    "(event \<Rightarrow> bool) \<Rightarrow> (event \<Rightarrow> bool) \<Rightarrow> bool \<Rightarrow> ('w, 'a) run \<Rightarrow> bool \<Rightarrow> bool" where
  "flag Y X b m b' = hoare (seen Y X b) m (\<lambda>_. seen Y X b') (\<lambda>_. seen Y X False)"

section \<open>Properties of the array operations\<close>

lemma drop_concat_replicate:
  "i \<le> n \<Longrightarrow> drop (i * length xs) (concat (replicate n xs)) = concat (replicate (n - i) xs)"
proof (induction i arbitrary: n)
  case 0
  then show ?case by simp
next
  case (Suc i)
  then obtain m where n: "n = Suc m" by (cases n) auto
  with Suc.prems have "i \<le> m" by simp
  from Suc.IH [OF this] show ?case by (simp add: n)
qed

lemma block_concat_replicate:
  assumes "length xs = prod_list ds" and "i < n"
  shows "block ds (concat (replicate n xs)) i = xs"
proof -
  from assms(2) obtain m where m: "n - i = Suc m" by (cases "n - i") auto
  have "drop (i * length xs) (concat (replicate n xs)) = concat (replicate (n - i) xs)"
    using assms(2) by (intro drop_concat_replicate) simp
  then show ?thesis by (simp add: block_def assms(1) [symmetric] m)
qed

lemma block_whole: "length xs = prod_list ds \<Longrightarrow> block ds xs 0 = xs"
  by (simp add: block_def)

lemma np_repeat_expand_dims:
  assumes "length (data a) = prod_list (shape a)"
  shows "np_repeat n (np_expand_dims a)
           = Inr \<lparr>shape = n # shape a, data = concat (replicate n (data a))\<rparr>"
  using assms by (simp add: np_repeat_def np_expand_dims_def block_whole)

section \<open>Shapes of the prepared batches\<close>

lemma batch_start_image_value:
  assumes "length (data a) = prod_list (shape a)"
  shows "batch_start_image n a
           = Inr \<lparr>shape = n # shape a, data = concat (replicate n (data a))\<rparr>"
  by (simp add: batch_start_image_def np_repeat_expand_dims [OF assms])

lemma batch_mask_image_value:
  assumes "length (data a) = prod_list (shape a)"
  shows "batch_mask_image n a
           = Inr \<lparr>shape = n # shape a @ [1], data = concat (replicate n (data a))\<rparr>"
  by (simp add: batch_mask_image_def np_repeat_expand_dims [OF assms] np_reshape_def)

text \<open>
  C10, as the notebook computes it. The notebook never resizes: \<open>start_image\<close> becomes a
  batch of shape \<open>(num_images, H, W, 3)\<close> whose \<open>num_images\<close> entries all equal the RGB
  array of the source image, \<open>H\<close> and \<open>W\<close> being the source image's height and width,
  and \<open>mask_image\<close> becomes a batch of shape \<open>(num_images, H', W', 1)\<close> whose entries all
  equal the single-channel array of the mask, \<open>H'\<close> and \<open>W'\<close> being the mask's own
  height and width; \<open>num_images\<close> is the number of prompts.
\<close>

theorem prepared_batches_keep_own_dimensions:
  assumes "shape rgb = [H, W, 3]" and "length (data rgb) = H * W * 3"
    and "shape l = [H', W']" and "length (data l) = H' * W'"
  shows "\<exists>s m. batch_start_image (length prompt) rgb = Inr s
           \<and> shape s = [length prompt, H, W, 3]
           \<and> (\<forall>i<length prompt. np_index s i = Inr rgb)
           \<and> batch_mask_image (length prompt) l = Inr m
           \<and> shape m = [length prompt, H', W', 1]
           \<and> (\<forall>i<length prompt. np_index m i = Inr (l\<lparr>shape := [H', W', 1]\<rparr>))"
proof -
  let ?n = "length prompt"
  have wr: "length (data rgb) = prod_list (shape rgb)" using assms by simp
  have wl: "length (data l) = prod_list (shape l)" using assms by simp
  have wl': "length (data l) = prod_list [H', W', 1]" using assms by simp
  have si: "\<forall>i<?n. np_index \<lparr>shape = ?n # shape rgb, data = concat (replicate ?n (data rgb))\<rparr> i
              = Inr rgb"
    by (simp add: np_index_def block_concat_replicate [OF wr])
  have mi: "\<forall>i<?n. np_index \<lparr>shape = [?n, H', W', 1], data = concat (replicate ?n (data l))\<rparr> i
              = Inr (l\<lparr>shape := [H', W', 1]\<rparr>)"
  proof (intro allI impI)
    fix i assume i: "i < ?n"
    from block_concat_replicate [OF wl' i]
    show "np_index \<lparr>shape = [?n, H', W', 1], data = concat (replicate ?n (data l))\<rparr> i
            = Inr (l\<lparr>shape := [H', W', 1]\<rparr>)"
      using i by (cases l) (simp add: np_index_def)
  qed
  show ?thesis
    using si mi assms by (simp add: batch_start_image_value [OF wr] batch_mask_image_value [OF wl])
qed

theorem prepared_batches_keep_own_dimensions_witness:
  "shape \<lparr>shape = [1, 1, 3], data = [7, 8, 9]\<rparr> = [1, 1, 3]
   \<and> length (data \<lparr>shape = [1, 1, 3], data = [7, 8, 9]\<rparr>) = 1 * 1 * 3
   \<and> shape \<lparr>shape = [2, 1], data = [0, 255]\<rparr> = [2, 1]
   \<and> length (data \<lparr>shape = [2, 1], data = [0, 255]\<rparr>) = 2 * 1
   \<and> (\<exists>s m. batch_start_image (length [''a'', ''b'']) \<lparr>shape = [1, 1, 3], data = [7, 8, 9]\<rparr> = Inr s
         \<and> shape s = [length [''a'', ''b''], 1, 1, 3]
         \<and> (\<forall>i<length [''a'', ''b'']. np_index s i = Inr \<lparr>shape = [1, 1, 3], data = [7, 8, 9]\<rparr>)
         \<and> batch_mask_image (length [''a'', ''b'']) \<lparr>shape = [2, 1], data = [0, 255]\<rparr> = Inr m
         \<and> shape m = [length [''a'', ''b''], 2, 1, 1]
         \<and> (\<forall>i<length [''a'', ''b''].
               np_index m i = Inr (\<lparr>shape = [2, 1], data = [0, 255]\<rparr>\<lparr>shape := [2, 1, 1]\<rparr>)))"
  using prepared_batches_keep_own_dimensions
          [of "\<lparr>shape = [1, 1, 3], data = [7, 8, 9]\<rparr>" 1 1
              "\<lparr>shape = [2, 1], data = [0, 255]\<rparr>" 2 1 "[''a'', ''b'']"]
  by simp

text \<open>
  C10 as stated gives both batches the same \<open>H\<close> and \<open>W\<close>. A 1x1 source image with a
  mask of height 2 and width 1 is prepared into batches of shapes \<open>(1, 1, 1, 3)\<close> and
  \<open>(1, 2, 1, 1)\<close>: the dimensions before the channel axis differ.
\<close>

theorem prepared_batches_same_dimensions_counterexample:
  "batch_start_image 1 \<lparr>shape = [1, 1, 3], data = [7, 8, 9]\<rparr>
     = Inr \<lparr>shape = [1, 1, 1, 3], data = [7, 8, 9]\<rparr>
   \<and> batch_mask_image 1 \<lparr>shape = [2, 1], data = [0, 255]\<rparr>
     = Inr \<lparr>shape = [1, 2, 1, 1], data = [0, 255]\<rparr>
   \<and> butlast [1, 1, 1, 3 :: nat] \<noteq> butlast [1, 2, 1, 1]"
  by (simp add: batch_start_image_def batch_mask_image_def np_repeat_def np_expand_dims_def
        np_reshape_def block_def)

section \<open>Reasoning about runs\<close>

text \<open>
  A run is a sequence of library calls, each of which may raise. The rules below follow
  a run statement by statement: \<open>hoare\<close> for assertions on the trace in general,
  \<open>keeps\<close> for an assertion every statement preserves, \<open>flag\<close> for "no \<open>X\<close> before the
  first \<open>Y\<close>".
\<close>

lemma hoare_ret: "(\<And>t. P t \<Longrightarrow> Q x t) \<Longrightarrow> hoare P (ret x) Q E"
  by (simp add: hoare_def ret_def)

lemma hoare_lift:
  "(\<And>t x. P t \<Longrightarrow> r = Inr x \<Longrightarrow> Q x t) \<Longrightarrow> (\<And>t e. P t \<Longrightarrow> r = Inl e \<Longrightarrow> E e t)
     \<Longrightarrow> hoare P (lift r) Q E"
  by (cases r) (simp_all add: hoare_def lift_def)

lemma hoare_ext:
  "(\<And>t x. P t \<Longrightarrow> Q x (t @ [(ev, None)])) \<Longrightarrow> (\<And>t e. P t \<Longrightarrow> E e (t @ [(ev, Some e)]))
     \<Longrightarrow> hoare P (ext ev f) Q E"
  by (auto simp: hoare_def ext_def raised_def split: prod.splits sum.splits)

lemma hoare_lib_call:
  "(\<And>t x. P t \<Longrightarrow> Q x (t @ [(ev, None)])) \<Longrightarrow> (\<And>t e. P t \<Longrightarrow> E e (t @ [(ev, Some e)]))
     \<Longrightarrow> hoare P (lib_call L ev) Q E"
  unfolding lib_call_def by (rule hoare_ext)

lemma hoare_shell: "(\<And>t. P t \<Longrightarrow> Q () (t @ [(ev, None)])) \<Longrightarrow> hoare P (shell ev f) Q E"
  by (auto simp: hoare_def shell_def split: prod.splits)

lemma hoare_emit: "(\<And>t. P t \<Longrightarrow> Q () (t @ [(ev, None)])) \<Longrightarrow> hoare P (emit ev) Q E"
  by (auto simp: hoare_def emit_def)

lemma hoare_out:
  "(\<And>t. P t \<Longrightarrow> Q () t) \<Longrightarrow> (\<And>t. P t \<Longrightarrow> Q () (t @ [(Out v, None)]))
     \<Longrightarrow> hoare P (out v) Q E"
  by (auto simp: hoare_def out_def emit_def ret_def)

lemma hoare_bind:
  assumes "hoare P m R E" and "\<And>x. hoare (R x) (f x) Q E"
  shows "hoare P (bindE m f) Q E"
  using assms by (fastforce simp: hoare_def bindE_def split: prod.splits sum.splits)

lemma hoare_bind_result:
  assumes "hoare P m (\<lambda>_. P) E" and "\<And>x s s'. m s = (Inr x, s') \<Longrightarrow> hoare P (f x) Q E"
  shows "hoare P (bindE m f) Q E"
  unfolding hoare_def
proof (intro allI impI)
  fix w t assume P: "P t"
  obtain r w' t' where m: "m (w, t) = (r, w', t')" by (cases "m (w, t)") auto
  from assms(1) P have step: "case m (w, t) of (Inl e, w', t') \<Rightarrow> E e t' | (Inr x, w', t') \<Rightarrow> P t'"
    by (simp add: hoare_def)
  show "case bindE m f (w, t) of (Inl e, w', t') \<Rightarrow> E e t' | (Inr x, w', t') \<Rightarrow> Q x t'"
  proof (cases r)
    case (Inl e)
    with step m show ?thesis by (simp add: bindE_def)
  next
    case (Inr x)
    with step m have "P t'" by simp
    moreover from assms(2) m Inr have "hoare P (f x) Q E" by blast
    ultimately have "case f x (w', t') of (Inl e, w', t') \<Rightarrow> E e t' | (Inr x, w', t') \<Rightarrow> Q x t'"
      by (simp add: hoare_def)
    with m Inr show ?thesis by (simp add: bindE_def)
  qed
qed

lemma hoare_seq:
  assumes "hoare P m (\<lambda>_. R) E" and "hoare R n Q E"
  shows "hoare P (seqE m n) Q E"
  unfolding seqE_def using assms by (intro hoare_bind)

lemma hoare_mapE:
  assumes "\<And>x. hoare I (f x) (\<lambda>_. I) E"
  shows "hoare I (mapE f xs) (\<lambda>_. I) E"
proof (induction xs)
  case Nil
  show ?case by (simp add: hoare_ret)
next
  case (Cons x xs)
  show ?case
    by (simp, intro hoare_bind [where R = "\<lambda>_. I"] assms Cons.IH hoare_ret)
qed

lemma hoare_result:
  assumes "hoare P m Q E" and "P t"
  shows "case m (w, t) of (Inl e, w', t') \<Rightarrow> E e t' | (Inr x, w', t') \<Rightarrow> Q x t'"
  using assms by (simp add: hoare_def)


subsection \<open>Invariants of the trace\<close>

lemma keeps_ret: "keeps P E (ret x)"
  unfolding keeps_def by (rule hoare_ret)

lemma keeps_lift: "(\<And>t e. P t \<Longrightarrow> r = Inl e \<Longrightarrow> E e t) \<Longrightarrow> keeps P E (lift r)"
  unfolding keeps_def by (rule hoare_lift)

lemma keeps_ext:
  "(\<And>t. P t \<Longrightarrow> P (t @ [(ev, None)])) \<Longrightarrow> (\<And>t e. P t \<Longrightarrow> E e (t @ [(ev, Some e)]))
     \<Longrightarrow> keeps P E (ext ev f)"
  unfolding keeps_def by (rule hoare_ext)

lemma keeps_lib_call:
  "(\<And>t. P t \<Longrightarrow> P (t @ [(ev, None)])) \<Longrightarrow> (\<And>t e. P t \<Longrightarrow> E e (t @ [(ev, Some e)]))
     \<Longrightarrow> keeps P E (lib_call L ev)"
  unfolding lib_call_def by (rule keeps_ext)

lemma keeps_shell: "(\<And>t. P t \<Longrightarrow> P (t @ [(ev, None)])) \<Longrightarrow> keeps P E (shell ev f)"
  unfolding keeps_def by (rule hoare_shell)

lemma keeps_emit: "(\<And>t. P t \<Longrightarrow> P (t @ [(ev, None)])) \<Longrightarrow> keeps P E (emit ev)"
  unfolding keeps_def by (rule hoare_emit)

lemma keeps_out: "(\<And>t. P t \<Longrightarrow> P (t @ [(Out v, None)])) \<Longrightarrow> keeps P E (out v)"
  unfolding keeps_def by (rule hoare_out)

lemma keeps_bind:
  "keeps P E m \<Longrightarrow> (\<And>x s s'. m s = (Inr x, s') \<Longrightarrow> keeps P E (f x)) \<Longrightarrow> keeps P E (bindE m f)"
  unfolding keeps_def by (rule hoare_bind_result)

lemma keeps_seq: "keeps P E m \<Longrightarrow> keeps P E n \<Longrightarrow> keeps P E (seqE m n)"
  unfolding seqE_def by (rule keeps_bind)

lemma keeps_mapE: "(\<And>x. keeps P E (f x)) \<Longrightarrow> keeps P E (mapE f xs)"
  unfolding keeps_def by (rule hoare_mapE)

lemma keeps_prod:
  "(\<And>a b. p = (a, b) \<Longrightarrow> keeps P E (f a b)) \<Longrightarrow> keeps P E (case p of (a, b) \<Rightarrow> f a b)"
  by (cases p) simp

lemma keeps_result:
  assumes "keeps P E m" and "P t"
  shows "case m (w, t) of (Inl e, w', t') \<Rightarrow> E e t' | (Inr x, w', t') \<Rightarrow> P t'"
  using assms unfolding keeps_def by (rule hoare_result)

lemmas keeps_rules = keeps_bind keeps_seq keeps_mapE keeps_prod keeps_ret

subsection \<open>No \<open>X\<close> before the first \<open>Y\<close>\<close>

lemma precedes_append:
  "precedes Y X (es @ fs) = (precedes Y X es \<and> (list_ex Y es \<or> precedes Y X fs))"
  by (induction es) auto

lemma seen_snoc:
  "seen Y X b t \<Longrightarrow> b \<or> Y ev \<or> \<not> X ev \<Longrightarrow> seen Y X (b \<or> Y ev) (t @ [(ev, r)])"
  by (auto simp: seen_def events_def precedes_append)

lemma seen_weaken: "seen Y X b t \<Longrightarrow> b' \<longrightarrow> b \<Longrightarrow> seen Y X b' t"
  by (auto simp: seen_def)

lemma seen_False: "seen Y X b t \<Longrightarrow> seen Y X False t"
  by (simp add: seen_def)

lemma flag_ret: "flag Y X b (ret x) b"
  unfolding flag_def by (rule hoare_ret)

lemma flag_lift: "flag Y X b (lift r) b"
  unfolding flag_def by (rule hoare_lift) (simp_all add: seen_False)

lemma flag_ext_first: "Y ev \<Longrightarrow> flag Y X b (ext ev f) True"
  unfolding flag_def
proof (rule hoare_ext)
  fix t x assume "Y ev" "seen Y X b t"
  then show "seen Y X True (t @ [(ev, None)])" using seen_snoc [of Y X b t ev None] by simp
next
  fix t e assume "Y ev" "seen Y X b t"
  then have "seen Y X True (t @ [(ev, Some e)])" using seen_snoc [of Y X b t ev "Some e"] by simp
  then show "seen Y X False (t @ [(ev, Some e)])" by (rule seen_False)
qed

lemma flag_ext_other: "b \<or> \<not> X ev \<Longrightarrow> flag Y X b (ext ev f) b"
  unfolding flag_def
proof (rule hoare_ext)
  fix t x assume a: "b \<or> \<not> X ev" "seen Y X b t"
  then have "seen Y X (b \<or> Y ev) (t @ [(ev, None)])" by (intro seen_snoc) auto
  then show "seen Y X b (t @ [(ev, None)])" by (rule seen_weaken) simp
next
  fix t e assume a: "b \<or> \<not> X ev" "seen Y X b t"
  then have "seen Y X (b \<or> Y ev) (t @ [(ev, Some e)])" by (intro seen_snoc) auto
  then show "seen Y X False (t @ [(ev, Some e)])" by (rule seen_False)
qed

lemma flag_lib_call_first: "Y ev \<Longrightarrow> flag Y X b (lib_call L ev) True"
  unfolding lib_call_def by (rule flag_ext_first)

lemma flag_lib_call_other: "b \<or> \<not> X ev \<Longrightarrow> flag Y X b (lib_call L ev) b"
  unfolding lib_call_def by (rule flag_ext_other)

lemma flag_shell: "b \<or> \<not> X ev \<Longrightarrow> flag Y X b (shell ev f) b"
  unfolding flag_def
proof (rule hoare_shell)
  fix t assume a: "b \<or> \<not> X ev" "seen Y X b t"
  then have "seen Y X (b \<or> Y ev) (t @ [(ev, None)])" by (intro seen_snoc) auto
  then show "seen Y X b (t @ [(ev, None)])" by (rule seen_weaken) simp
qed

lemma flag_emit: "b \<or> \<not> X ev \<Longrightarrow> flag Y X b (emit ev) b"
  unfolding flag_def
proof (rule hoare_emit)
  fix t assume a: "b \<or> \<not> X ev" "seen Y X b t"
  then have "seen Y X (b \<or> Y ev) (t @ [(ev, None)])" by (intro seen_snoc) auto
  then show "seen Y X b (t @ [(ev, None)])" by (rule seen_weaken) simp
qed

lemma flag_out: "b \<or> \<not> X (Out v) \<Longrightarrow> flag Y X b (out v) b"
  unfolding flag_def
proof (rule hoare_out)
  fix t assume "seen Y X b t"
  then show "seen Y X b t" .
next
  fix t assume a: "b \<or> \<not> X (Out v)" "seen Y X b t"
  then have "b \<or> Y (Out v) \<or> \<not> X (Out v)" by blast
  with a(2) have "seen Y X (b \<or> Y (Out v)) (t @ [(Out v, None)])" by (rule seen_snoc)
  then show "seen Y X b (t @ [(Out v, None)])" by (rule seen_weaken) simp
qed

lemma flag_bind:
  "flag Y X b m b1 \<Longrightarrow> (\<And>x. flag Y X b1 (f x) b2) \<Longrightarrow> flag Y X b (bindE m f) b2"
  unfolding flag_def by (rule hoare_bind)

lemma flag_seq:
  "flag Y X b m b1 \<Longrightarrow> flag Y X b1 n b2 \<Longrightarrow> flag Y X b (seqE m n) b2"
  unfolding seqE_def by (rule flag_bind)

lemma flag_mapE:
  assumes "\<And>x. flag Y X b (f x) b"
  shows "flag Y X b (mapE f xs) b"
  using assms unfolding flag_def by (rule hoare_mapE)

lemma flag_prod:
  "(\<And>a b. flag Y X c (f a b) d) \<Longrightarrow> flag Y X c (case p of (a, b) \<Rightarrow> f a b) d"
  by (cases p) simp

lemma flag_precedes:
  assumes "flag Y X False m b"
  shows "precedes Y X (events (trace_of (m (w, []))))"
  using hoare_result [OF assms [unfolded flag_def], of "[]" w]
  by (auto simp: seen_def events_def trace_of_def split: prod.splits sum.splits)

lemmas flag_rules = flag_bind flag_seq flag_out flag_lift flag_ret flag_mapE flag_prod

lemmas flag_first = flag_lib_call_first flag_ext_first

lemmas flag_other = flag_lib_call_other flag_ext_other flag_shell flag_emit

subsection \<open>Every call satisfies a property\<close>

lemma every_snoc: "G ev \<Longrightarrow> every G t \<Longrightarrow> every G (t @ [(ev, r)])"
  by (simp add: every_def events_def)

lemma every_ext: "G ev \<Longrightarrow> keeps (every G) (\<lambda>_. every G) (ext ev f)"
  by (rule keeps_ext) (simp_all add: every_snoc)

lemma every_lib_call: "G ev \<Longrightarrow> keeps (every G) (\<lambda>_. every G) (lib_call L ev)"
  by (rule keeps_lib_call) (simp_all add: every_snoc)

lemma every_shell: "G ev \<Longrightarrow> keeps (every G) (\<lambda>_. every G) (shell ev f)"
  by (rule keeps_shell) (simp add: every_snoc)

lemma every_emit: "G ev \<Longrightarrow> keeps (every G) (\<lambda>_. every G) (emit ev)"
  by (rule keeps_emit) (simp add: every_snoc)

lemma every_out: "G (Out v) \<Longrightarrow> keeps (every G) (\<lambda>_. every G) (out v)"
  by (rule keeps_out) (simp add: every_snoc)

lemma every_lift: "keeps (every G) (\<lambda>_. every G) (lift r)"
  by (rule keeps_lift)

lemma keeps_every:
  assumes "keeps (every G) (\<lambda>_. every G) m"
  shows "list_all G (events (trace_of (m (w, []))))"
proof -
  have "every G []" by (simp add: every_def events_def)
  from keeps_result [OF assms this, of w] show ?thesis
    by (auto simp: every_def trace_of_def split: prod.splits sum.splits)
qed

lemmas every_rules = keeps_bind keeps_seq keeps_mapE keeps_prod keeps_ret every_lift
  every_ext every_lib_call every_shell every_emit every_out

subsection \<open>Unfolding and running the notebooks\<close>

lemmas outer_defs = inpaint_notebook_def pip_install_def py_imports_def enable_all_def
  set_seeds_def inpaint_load_model_def inpaint_show_def
  text_to_image_notebook_def text_to_image_single_def text_to_image_grids_def
  text_to_image_video_def

lemmas notebook_defs = outer_defs inpaint_load_images_def

lemmas run_simps = notebook_defs inpaint_as_written_def text_to_image_as_written_def
  bindE_def seqE_def ext_def lib_call_def shell_def emit_def out_def ret_def lift_def raised_def
  outcome_def trace_of_def events_def
  demo_lib_def missing_file_lib_def out_of_memory_lib_def demo_call_def demo_np_array_def
  demo_pipeline_def inpaint_kwargs_def single_kwargs_def history_kwargs_def
  inpaint_prompts_def text_to_image_prompts_def
  batch_start_image_def batch_mask_image_def np_repeat_def np_expand_dims_def np_reshape_def
  block_def py_getitem0_def py_zip_star_def py_iter_def py_zip_def enumerate_eq_zip
  grid_rows_def inpaint_grid_cols_def text_to_image_grid_cols_def

section \<open>Exceptions end the run\<close>

lemma clean_snoc: "clean t \<Longrightarrow> clean (t @ [(ev, None)])"
  by (simp add: clean_def)

lemma ended_snoc: "clean t \<Longrightarrow> ended e (t @ [(ev, Some e)])"
  by (auto simp: ended_def)

lemma clean_ended: "clean t \<Longrightarrow> ended e t"
  by (simp add: ended_def)

lemma propagated_clean: "clean t \<Longrightarrow> propagated r t"
  by (induction t) (auto simp: clean_def)

lemma propagated_snoc: "clean t \<Longrightarrow> propagated (Some e) (t @ [(ev, Some e)])"
  by (induction t) (auto simp: clean_def)

lemma propagated_ended: "ended e t \<Longrightarrow> propagated (Some e) t"
  by (auto simp: ended_def propagated_clean propagated_snoc)

text \<open>
  What \<open>propagated\<close> says of a trace: a call recorded with an exception is the last
  one, and the exception is the run's.
\<close>

lemma propagated_raised_last:
  "propagated r t \<Longrightarrow> (ev, Some e) \<in> set t \<Longrightarrow> r = Some e \<and> last t = (ev, Some e)"
proof (induction r t rule: propagated.induct)
  case (1 r)
  then show ?case by simp
next
  case (2 r ev' t)
  then show ?case by auto
next
  case (3 r ev' e' t)
  then show ?case by auto
qed

lemma keeps_clean_propagated:
  assumes "keeps clean ended m"
  shows "propagated (raised (outcome (m (w, [])))) (trace_of (m (w, [])))"
proof -
  have "clean []" by (simp add: clean_def)
  from keeps_result [OF assms this, of w] show ?thesis
    by (auto simp: raised_def outcome_def trace_of_def propagated_clean propagated_ended
             split: prod.splits sum.splits)
qed

lemma inpaint_notebook_keeps_clean: "keeps clean ended (inpaint_notebook L prompt negative_prompt seed)"
  unfolding notebook_defs
  apply (rule keeps_rules keeps_lib_call keeps_ext keeps_shell keeps_emit keeps_out keeps_lift
       | (simp add: clean_snoc ended_snoc clean_ended; fail))+
  done

lemma text_to_image_notebook_keeps_clean:
  "keeps clean ended (text_to_image_notebook L prompt0 prompt negative_prompt seed)"
  unfolding notebook_defs
  apply (rule keeps_rules keeps_lib_call keeps_ext keeps_shell keeps_emit keeps_out keeps_lift
       | (simp add: clean_snoc ended_snoc clean_ended; fail))+
  done

text \<open>
  C6. In every run of either notebook, whatever the libraries do, a library call that
  raises (a missing image or mask file at \<open>Image.open\<close>, incompatible shapes or
  exhausted accelerator memory inside the pipeline call, or any other) is the last
  event of the run, and the run ends with exactly the exception that call raised:
  nothing in a notebook catches it, retries, translates it or returns a result in its
  place.
\<close>

theorem exceptions_propagate_unchanged:
  "propagated (raised (outcome (inpaint_notebook L prompt negative_prompt seed (w, []))))
     (trace_of (inpaint_notebook L prompt negative_prompt seed (w, [])))
   \<and> propagated
       (raised (outcome (text_to_image_notebook L' prompt0 prompt' negative_prompt' seed' (w', []))))
       (trace_of (text_to_image_notebook L' prompt0 prompt' negative_prompt' seed' (w', [])))"
  by (intro conjI keeps_clean_propagated inpaint_notebook_keeps_clean
        text_to_image_notebook_keeps_clean)

theorem exceptions_propagate_unchanged_witness:
  "outcome (inpaint_as_written missing_file_lib ((), [])) = Inl (FileNotFoundError image_filename)
   \<and> last (trace_of (inpaint_as_written missing_file_lib ((), [])))
       = (ImageOpen image_filename, Some (FileNotFoundError image_filename))
   \<and> outcome (text_to_image_as_written out_of_memory_lib ((), [])) = Inl OutOfMemoryError
   \<and> propagated (raised (outcome (inpaint_as_written missing_file_lib ((), []))))
        (trace_of (inpaint_as_written missing_file_lib ((), [])))
   \<and> propagated (raised (outcome (text_to_image_as_written out_of_memory_lib ((), []))))
        (trace_of (text_to_image_as_written out_of_memory_lib ((), [])))"
  using exceptions_propagate_unchanged
          [where L = missing_file_lib and prompt = inpaint_prompts
             and negative_prompt = negative_prompt_text and seed = 42 and w = "()"
             and L' = out_of_memory_lib and ?prompt0.0 = cityscape_prompt
             and prompt' = text_to_image_prompts and negative_prompt' = negative_prompt_text
             and seed' = 1337 and w' = "()"]
  by (simp add: run_simps)

section \<open>Options passed to the libraries\<close>

text \<open>
  C7. In every run of either notebook, every pipeline object is constructed with a model
  identifier (\<open>model_id\<close>, a string), and every call of a pipeline passes only
  keywords of the recognized set: prompt(s), negative prompt(s), inference step count,
  guidance scale, source image, mask image, starting step, target image dimensions and
  the latent-history flag.
\<close>

theorem calls_pass_recognized_options:
  "list_all call_is_recognized
     (events (trace_of (inpaint_notebook L prompt negative_prompt seed (w, []))))
   \<and> list_all call_is_recognized
       (events (trace_of (text_to_image_notebook L' prompt0 prompt' negative_prompt' seed' (w', []))))"
  unfolding notebook_defs
  by (intro conjI keeps_every;
      (rule every_rules
       | (simp add: inpaint_kwargs_def single_kwargs_def history_kwargs_def
            recognized_options_def ; fail))+)

theorem calls_pass_recognized_options_witness:
  "filter is_construct (events (trace_of (inpaint_as_written demo_lib ((), []))))
     = [Construct ''InpaintDiffusion''
          [(''model_id'', PStr inpaint_model_id), (''torch_dtype'', PName ''torch.float16'')]]
   \<and> map (\<lambda>ev. case ev of Pipeline _ kw \<Rightarrow> map fst kw | _ \<Rightarrow> [])
         (filter is_pipeline (events (trace_of (text_to_image_as_written demo_lib ((), [])))))
     = [[''prompt'', ''num_inference_steps''],
        [''prompt'', ''negative_prompt'', ''num_inference_steps'', ''guidance_scale'',
         ''return_latent_history'']]
   \<and> list_all call_is_recognized (events (trace_of (inpaint_as_written demo_lib ((), []))))
   \<and> list_all call_is_recognized (events (trace_of (text_to_image_as_written demo_lib ((), []))))"
  using calls_pass_recognized_options
          [where L = demo_lib and prompt = inpaint_prompts
             and negative_prompt = negative_prompt_text and seed = 42 and w = "()"
             and L' = demo_lib and ?prompt0.0 = cityscape_prompt
             and prompt' = text_to_image_prompts and negative_prompt' = negative_prompt_text
             and seed' = 1337 and w' = "()"]
  by (simp add: run_simps)

section \<open>Batch lengths\<close>

subsection \<open>Every pipeline call carries the batches\<close>

lemma batch_start_image_shape: "batch_start_image n x = Inr a \<Longrightarrow> shape a = n # shape x"
  by (auto simp: batch_start_image_def np_repeat_def np_expand_dims_def)

lemma batch_mask_image_shape: "batch_mask_image n x = Inr a \<Longrightarrow> shape a = n # shape x @ [1]"
  by (auto simp: batch_mask_image_def np_repeat_def np_expand_dims_def np_reshape_def
           split: if_splits)

lemma batch_start_image_returns [simp]: "batch_start_image n x \<noteq> Inl e"
  by (simp add: batch_start_image_def np_repeat_def np_expand_dims_def)

lemma batch_mask_image_returns [simp]: "batch_mask_image n x \<noteq> Inl e"
  by (simp add: batch_mask_image_def np_repeat_def np_expand_dims_def np_reshape_def)

lemma list_all_filter_every:
  assumes "list_all (\<lambda>ev. Q ev \<longrightarrow> P ev) xs"
  shows "list_all P (filter Q xs)"
  using assms by (induction xs) auto

lemma list_arg_list: "list_arg n (Some (PList xs)) = (length xs = n)"
  by (simp add: list_arg_def)

lemma inpaint_load_images_arrays:
  assumes "inpaint_load_images L n s = (Inr x, s')"
  shows "array_arg n (Some (PArr (fst x))) \<and> array_arg n (Some (PArr (snd x)))"
proof -
  from assms obtain a b where "batch_start_image n a = Inr (fst x)" "batch_mask_image n b = Inr (snd x)"
    unfolding inpaint_load_images_def bindE_def seqE_def lift_def ret_def
    by (auto split: prod.splits sum.splits)
  then show ?thesis
    by (simp add: array_arg_def batch_start_image_shape batch_mask_image_shape)
qed

lemma inpaint_load_images_no_call:
  "keeps (every (\<lambda>ev. is_pipeline ev \<longrightarrow> P ev)) (\<lambda>_. every (\<lambda>ev. is_pipeline ev \<longrightarrow> P ev))
     (inpaint_load_images L n)"
  unfolding inpaint_load_images_def
  by (rule every_rules | (simp; fail))+

lemma inpaint_calls_batched:
  "keeps (every (\<lambda>ev. is_pipeline ev \<longrightarrow> batched_call True (length prompt) ev))
     (\<lambda>_. every (\<lambda>ev. is_pipeline ev \<longrightarrow> batched_call True (length prompt) ev))
     (inpaint_notebook L prompt negative_prompt seed)"
  unfolding outer_defs
  apply (rule every_rules inpaint_load_images_no_call
       | (simp; fail)
       | (drule inpaint_load_images_arrays, simp add: inpaint_kwargs_def list_arg_list; fail))+
  done

lemma text_to_image_calls_single_or_batched:
  "keeps (every (\<lambda>ev. is_pipeline ev \<longrightarrow> single_or_batched (length prompt) ev))
     (\<lambda>_. every (\<lambda>ev. is_pipeline ev \<longrightarrow> single_or_batched (length prompt) ev))
     (text_to_image_notebook L prompt0 prompt negative_prompt seed)"
  unfolding notebook_defs
  apply (rule every_rules
       | (simp add: single_kwargs_def history_kwargs_def list_arg_list single_or_batched_def; fail))+
  done

lemma list_ex_filter_all: "list_ex Q xs \<Longrightarrow> list_all P (filter Q xs) \<Longrightarrow> list_ex P xs"
  by (induction xs) (auto split: if_splits)

subsection \<open>A run that returns has made the batched call\<close>

lemma flag_reaches:
  assumes "flag Y X False m True" and "raised (outcome (m (w, []))) = None"
  shows "list_ex Y (events (trace_of (m (w, []))))"
  using hoare_result [OF assms(1) [unfolded flag_def], of "[]" w] assms(2)
  by (auto simp: seen_def events_def trace_of_def raised_def outcome_def
           split: prod.splits sum.splits)

lemma inpaint_returns_after_call:
  "flag is_pipeline (\<lambda>_. False) False (inpaint_notebook L prompt negative_prompt seed) True"
  unfolding notebook_defs
  by (rule flag_rules | (rule flag_first, (simp; fail)) | (rule flag_other, (simp; fail))
       | (simp; fail))+

lemma text_to_image_returns_after_batched_call:
  "flag (batched_call False (length prompt)) (\<lambda>_. False) False
     (text_to_image_notebook L prompt0 prompt negative_prompt seed) True"
  unfolding notebook_defs
  by (rule flag_rules
       | (rule flag_first, (simp add: history_kwargs_def single_kwargs_def list_arg_list; fail))
       | (rule flag_other, (simp; fail))
       | (simp; fail))+

subsection \<open>The notebooks raise nothing over their inputs\<close>

lemma ended_in_call_snoc: "clean t \<Longrightarrow> ended_in_call e (t @ [(ev, Some e)])"
  by (auto simp: ended_in_call_def)

lemma from_library_ended_in_call: "ended_in_call e t \<Longrightarrow> from_library (Some e) t"
  by (auto simp: ended_in_call_def)

lemma inpaint_notebook_from_library:
  "keeps clean ended_in_call (inpaint_notebook L prompt negative_prompt seed)"
  unfolding notebook_defs
  apply (rule keeps_rules keeps_lib_call keeps_ext keeps_shell keeps_emit keeps_out keeps_lift
       | (simp add: clean_snoc ended_in_call_snoc; fail))+
  done

lemma keeps_clean_from_library:
  assumes "keeps clean ended_in_call m"
  shows "from_library (raised (outcome (m (w, [])))) (trace_of (m (w, [])))"
proof -
  have "clean []" by (simp add: clean_def)
  from keeps_result [OF assms this, of w] show ?thesis
    by (auto simp: raised_def outcome_def trace_of_def split: prod.splits sum.splits
             dest: from_library_ended_in_call)
qed

lemma py_getitem0_raises: "py_getitem0 v = Inl e \<Longrightarrow> e = IndexError \<or> e = TypeError"
  by (auto simp: py_getitem0_def np_index_def
           split: pyval.splits list.splits sum.splits if_splits)

lemma py_iter_raises: "py_iter v = Inl e \<Longrightarrow> e = TypeError"
  by (auto simp: py_iter_def split: pyval.splits list.splits)

lemma py_iter_all_raises: "py_iter_all vs = Inl e \<Longrightarrow> e = TypeError"
  by (induction vs) (auto split: sum.splits dest: py_iter_raises)

lemma py_zip_star_raises: "py_zip_star v = Inl e \<Longrightarrow> e = TypeError"
  by (auto simp: py_zip_star_def split: sum.splits dest: py_iter_raises py_iter_all_raises)

lemma after_pipeline_snoc: "clean t \<Longrightarrow> is_pipeline ev \<Longrightarrow> after_pipeline (t @ [(ev, None)])"
  by (simp add: after_pipeline_def clean_def)

lemma after_pipeline_clean: "after_pipeline t \<Longrightarrow> clean t"
  by (simp add: after_pipeline_def)

lemma ended_in_call_or_result_snoc:
  "clean t \<Longrightarrow> ended_in_call_or_result e (t @ [(ev, Some e)])"
  by (simp add: ended_in_call_or_result_def ended_in_call_snoc)

lemma text_to_image_single_own_errors:
  "keeps clean ended_in_call_or_result (text_to_image_single L model prompt)"
  unfolding keeps_def text_to_image_single_def
proof (rule hoare_bind [where R = "\<lambda>_. after_pipeline"])
  show "hoare clean (lib_call L (Pipeline model (single_kwargs prompt))) (\<lambda>_. after_pipeline)
          ended_in_call_or_result"
    by (rule hoare_lib_call) (simp_all add: after_pipeline_snoc ended_in_call_or_result_snoc)
next
  fix images
  show "hoare after_pipeline (bindE (lift (py_getitem0 images)) out) (\<lambda>_. clean)
          ended_in_call_or_result"
  proof (rule hoare_bind [where R = "\<lambda>_. clean"])
    show "hoare after_pipeline (lift (py_getitem0 images)) (\<lambda>_. clean) ended_in_call_or_result"
      by (rule hoare_lift)
         (auto simp: after_pipeline_clean ended_in_call_or_result_def dest: py_getitem0_raises)
  next
    fix v
    show "hoare clean (out v) (\<lambda>_. clean) ended_in_call_or_result"
      by (rule hoare_out) (simp_all add: clean_snoc)
  qed
qed

lemma text_to_image_grids_own_errors:
  "hoare after_pipeline (text_to_image_grids L n images) (\<lambda>_. clean) ended_in_call_or_result"
  unfolding text_to_image_grids_def
proof (rule hoare_bind [where R = "\<lambda>_. clean"])
  show "hoare after_pipeline (lift (py_zip_star images)) (\<lambda>_. clean) ended_in_call_or_result"
    by (rule hoare_lift)
       (auto simp: after_pipeline_clean ended_in_call_or_result_def dest: py_zip_star_raises)
next
  fix batches
  show "hoare clean
          (mapE (\<lambda>imgs. lib_call L (ImageGrid imgs grid_rows (text_to_image_grid_cols n))) batches)
          (\<lambda>_. clean) ended_in_call_or_result"
    by (rule hoare_mapE, rule hoare_lib_call)
       (simp_all add: clean_snoc ended_in_call_or_result_snoc)
qed

lemma text_to_image_history_own_errors:
  assumes "\<And>timestep_images. keeps clean ended_in_call_or_result (k timestep_images)"
  shows "keeps clean ended_in_call_or_result
           (bindE (lib_call L (Pipeline model kw))
              (\<lambda>images. bindE (text_to_image_grids L n images) k))"
  unfolding keeps_def
proof (rule hoare_bind [where R = "\<lambda>_. after_pipeline"])
  show "hoare clean (lib_call L (Pipeline model kw)) (\<lambda>_. after_pipeline) ended_in_call_or_result"
    by (rule hoare_lib_call) (simp_all add: after_pipeline_snoc ended_in_call_or_result_snoc)
next
  fix images
  show "hoare after_pipeline (bindE (text_to_image_grids L n images) k) (\<lambda>_. clean)
          ended_in_call_or_result"
    by (rule hoare_bind [where R = "\<lambda>_. clean"], rule text_to_image_grids_own_errors)
       (rule assms [unfolded keeps_def])
qed

lemmas text_to_image_outer_defs = text_to_image_notebook_def pip_install_def py_imports_def
  enable_all_def set_seeds_def text_to_image_video_def

lemma text_to_image_notebook_own_errors:
  "keeps clean ended_in_call_or_result (text_to_image_notebook L prompt0 prompt negative_prompt seed)"
  unfolding text_to_image_outer_defs
  apply (rule text_to_image_single_own_errors text_to_image_history_own_errors
       | rule keeps_rules keeps_lib_call keeps_ext keeps_shell keeps_emit keeps_out keeps_lift
       | (simp add: clean_snoc ended_in_call_or_result_snoc; fail))+
  done

lemma clean_last: "clean t \<Longrightarrow> t \<noteq> [] \<Longrightarrow> snd (last t) = None"
  by (induction t) (auto simp: clean_def)

lemma from_library_or_result_ended:
  "ended_in_call_or_result e t \<Longrightarrow> from_library_or_result (Some e) t"
  by (auto simp: ended_in_call_or_result_def ended_in_call_def after_pipeline_def clean_last)

lemma keeps_clean_from_library_or_result:
  assumes "keeps clean ended_in_call_or_result m"
  shows "from_library_or_result (raised (outcome (m (w, [])))) (trace_of (m (w, [])))"
proof -
  have "clean []" by (simp add: clean_def)
  from keeps_result [OF assms this, of w] show ?thesis
    by (auto simp: raised_def outcome_def trace_of_def split: prod.splits sum.splits
             dest: from_library_or_result_ended)
qed

text \<open>
  C4. In every run of the inpainting notebook every pipeline call passes the prompts as
  a list, a list of negative prompts of the same length, and an image batch and a mask
  batch whose leading dimensions are the number of prompts; in every run of the
  text-to-image notebook every pipeline call is either the call with one prompt (a
  string, no negative prompt) or passes the prompts as a list with a list of negative
  prompts of the same length. A run that returns has made the batched call. The
  notebooks check nothing about their inputs: whatever the prompts, the negative prompt,
  the seed and the loaded arrays are, an inpainting run raises only what a library call
  raised, and a text-to-image run raises that or, right after a pipeline call has
  returned, an \<open>IndexError\<close> or \<open>TypeError\<close> from indexing or unpacking what the call
  returned.
\<close>

theorem batched_calls_match_in_length:
  "list_all (batched_call True (length prompt))
     (filter is_pipeline (events (trace_of (inpaint_notebook L prompt negative_prompt seed (w, [])))))
   \<and> (raised (outcome (inpaint_notebook L prompt negative_prompt seed (w, []))) = None \<longrightarrow>
        list_ex (batched_call True (length prompt))
          (events (trace_of (inpaint_notebook L prompt negative_prompt seed (w, [])))))
   \<and> from_library (raised (outcome (inpaint_notebook L prompt negative_prompt seed (w, []))))
       (trace_of (inpaint_notebook L prompt negative_prompt seed (w, [])))
   \<and> list_all (single_or_batched (length prompt'))
       (filter is_pipeline
          (events (trace_of (text_to_image_notebook L' prompt0 prompt' negative_prompt' seed' (w', [])))))
   \<and> (raised (outcome (text_to_image_notebook L' prompt0 prompt' negative_prompt' seed' (w', [])))
         = None \<longrightarrow>
        list_ex (batched_call False (length prompt'))
          (events (trace_of (text_to_image_notebook L' prompt0 prompt' negative_prompt' seed' (w', [])))))
   \<and> from_library_or_result
       (raised (outcome (text_to_image_notebook L' prompt0 prompt' negative_prompt' seed' (w', []))))
       (trace_of (text_to_image_notebook L' prompt0 prompt' negative_prompt' seed' (w', [])))"
proof -
  let ?i = "inpaint_notebook L prompt negative_prompt seed (w, [])"
  let ?t = "text_to_image_notebook L' prompt0 prompt' negative_prompt' seed' (w', [])"
  have i1: "list_all (batched_call True (length prompt)) (filter is_pipeline (events (trace_of ?i)))"
    by (intro list_all_filter_every keeps_every inpaint_calls_batched)
  have i2: "raised (outcome ?i) = None \<longrightarrow> list_ex (batched_call True (length prompt)) (events (trace_of ?i))"
  proof
    assume "raised (outcome ?i) = None"
    with inpaint_returns_after_call have "list_ex is_pipeline (events (trace_of ?i))"
      by (rule flag_reaches)
    then show "list_ex (batched_call True (length prompt)) (events (trace_of ?i))"
      using i1 by (rule list_ex_filter_all)
  qed
  have i3: "from_library (raised (outcome ?i)) (trace_of ?i)"
    by (intro keeps_clean_from_library inpaint_notebook_from_library)
  have t1: "list_all (single_or_batched (length prompt')) (filter is_pipeline (events (trace_of ?t)))"
    by (intro list_all_filter_every keeps_every text_to_image_calls_single_or_batched)
  have t2: "raised (outcome ?t) = None \<longrightarrow> list_ex (batched_call False (length prompt')) (events (trace_of ?t))"
  proof
    assume "raised (outcome ?t) = None"
    with text_to_image_returns_after_batched_call
    show "list_ex (batched_call False (length prompt')) (events (trace_of ?t))"
      by (rule flag_reaches)
  qed
  have t3: "from_library_or_result (raised (outcome ?t)) (trace_of ?t)"
    by (intro keeps_clean_from_library_or_result text_to_image_notebook_own_errors)
  from i1 i2 i3 t1 t2 t3 show ?thesis by blast
qed

theorem batched_calls_match_in_length_witness:
  "filter is_pipeline (events (trace_of (inpaint_as_written demo_lib ((), []))))
     = [Pipeline (PObj 1)
          [(''prompt'', PList [PStr creature_prompt, PStr creatures_prompt, PStr dragon_prompt,
                              PStr ferocious_lion_prompt]),
           (''negative_prompt'', PList [PStr negative_prompt_text, PStr negative_prompt_text,
                                       PStr negative_prompt_text, PStr negative_prompt_text]),
           (''image'', PArr \<lparr>shape = [4, 1, 1, 3],
                              data = [7, 8, 9, 7, 8, 9, 7, 8, 9, 7, 8, 9]\<rparr>),
           (''mask'', PArr \<lparr>shape = [4, 1, 1, 1], data = [255, 255, 255, 255]\<rparr>),
           (''num_inference_steps'', PInt 20),
           (''start_step'', PInt 5),
           (''image_height'', PInt 512),
           (''image_width'', PInt 512),
           (''guidance_scale'', PFloat 10)]]
   \<and> filter is_pipeline (events (trace_of (text_to_image_as_written demo_lib ((), []))))
     = [Pipeline (PObj 1) [(''prompt'', PStr cityscape_prompt), (''num_inference_steps'', PInt 20)],
        Pipeline (PObj 1)
          [(''prompt'', PList [PStr castle_prompt, PStr lion_prompt, PStr woman_prompt,
                              PStr survivor_prompt]),
           (''negative_prompt'', PList [PStr negative_prompt_text, PStr negative_prompt_text,
                                       PStr negative_prompt_text, PStr negative_prompt_text]),
           (''num_inference_steps'', PInt 20),
           (''guidance_scale'', PFloat 10),
           (''return_latent_history'', PBool True)]]
   \<and> raised (outcome (inpaint_as_written demo_lib ((), []))) = None
   \<and> raised (outcome (text_to_image_as_written demo_lib ((), []))) = None
   \<and> list_all (batched_call True (length inpaint_prompts))
        (filter is_pipeline (events (trace_of (inpaint_as_written demo_lib ((), [])))))
   \<and> list_ex (batched_call True (length inpaint_prompts))
        (events (trace_of (inpaint_as_written demo_lib ((), []))))
   \<and> from_library (raised (outcome (inpaint_as_written demo_lib ((), []))))
        (trace_of (inpaint_as_written demo_lib ((), [])))
   \<and> list_all (single_or_batched (length text_to_image_prompts))
        (filter is_pipeline (events (trace_of (text_to_image_as_written demo_lib ((), [])))))
   \<and> list_ex (batched_call False (length text_to_image_prompts))
        (events (trace_of (text_to_image_as_written demo_lib ((), []))))
   \<and> from_library_or_result (raised (outcome (text_to_image_as_written demo_lib ((), []))))
        (trace_of (text_to_image_as_written demo_lib ((), [])))"
  using batched_calls_match_in_length
          [where L = demo_lib and prompt = inpaint_prompts
             and negative_prompt = negative_prompt_text and seed = 42 and w = "()"
             and L' = demo_lib and ?prompt0.0 = cityscape_prompt
             and prompt' = text_to_image_prompts and negative_prompt' = negative_prompt_text
             and seed' = 1337 and w' = "()"]
  by (simp add: run_simps num_inference_steps_def list_arg_def array_arg_def
        single_or_batched_def)

section \<open>Cells of the result grids\<close>

lemma inpaint_grid_fits: "n \<le> grid_rows * inpaint_grid_cols n"
proof -
  have "real n / 2 \<le> of_int \<lceil>real n / 2\<rceil>" by (rule le_of_int_ceiling)
  moreover have "0 \<le> \<lceil>real n / 2\<rceil>" by simp
  ultimately have "real n \<le> 2 * real (nat \<lceil>real n / 2\<rceil>)" by linarith
  then have "n \<le> 2 * nat \<lceil>real n / 2\<rceil>" by linarith
  then show ?thesis by (simp add: grid_rows_def inpaint_grid_cols_def)
qed

lemma text_to_image_grid_fits_iff:
  "(n \<le> grid_rows * text_to_image_grid_cols n) = even n"
  unfolding grid_rows_def text_to_image_grid_cols_def by presburger

text \<open>
  C5 at a batch of three prompts in the text-to-image notebook: \<open>len(prompt) // 2\<close> is
  one column, so the grid of two rows has two cells for three images, and with
  libraries that return one image per prompt and step the notebook passes three images
  to \<open>image_grid(imgs, rows=2, cols=1)\<close> at every step. The inpainting notebook rounds
  up (\<open>inpaint_grid_fits\<close>) and has a cell for every image.
\<close>

theorem text_to_image_grid_misses_an_image:
  "grid_rows * text_to_image_grid_cols (length [''a'', ''b'', ''c'']) = 2
   \<and> length [''a'', ''b'', ''c''] = 3
   \<and> grid_rows * inpaint_grid_cols (length [''a'', ''b'', ''c'']) = 4
   \<and> filter is_result_grid
         (events (trace_of (text_to_image_notebook demo_lib cityscape_prompt [''a'', ''b'', ''c'']
                              negative_prompt_text 1337 ((), []))))
       = [ImageGrid (PList [PObj 10, PObj 10, PObj 10]) 2 1,
          ImageGrid (PList [PObj 11, PObj 11, PObj 11]) 2 1]"
  by (simp add: run_simps)

section \<open>Order of the steps\<close>

text \<open>
  C8, as the notebooks run. In every run of either notebook the pipeline handle is
  constructed before the seeds are set, both seeds are set before any pipeline call, and the grids of
  generated images (two rows) are made only after a pipeline call; in the
  text-to-image notebook every post-processing step (grid, video) comes after a
  pipeline call and \<open>display(...)\<close> is called only after the video is written. The
  steps are not one fixed sequence (see the counterexample below).
\<close>

theorem steps_follow_their_inputs:
  "precedes is_construct is_manual_seed (events (trace_of (inpaint_notebook L prompt negative_prompt seed (w, []))))
   \<and> precedes is_construct is_random_seed (events (trace_of (inpaint_notebook L prompt negative_prompt seed (w, []))))
   \<and> precedes is_construct is_manual_seed (events (trace_of (text_to_image_notebook L' prompt0 prompt' negative_prompt' seed' (w', []))))
   \<and> precedes is_construct is_random_seed (events (trace_of (text_to_image_notebook L' prompt0 prompt' negative_prompt' seed' (w', []))))
   \<and> precedes is_construct is_pipeline (events (trace_of (inpaint_notebook L prompt negative_prompt seed (w, []))))
   \<and> precedes is_manual_seed is_pipeline (events (trace_of (inpaint_notebook L prompt negative_prompt seed (w, []))))
   \<and> precedes is_random_seed is_pipeline (events (trace_of (inpaint_notebook L prompt negative_prompt seed (w, []))))
   \<and> precedes is_pipeline is_result_grid (events (trace_of (inpaint_notebook L prompt negative_prompt seed (w, []))))
   \<and> precedes is_construct is_pipeline (events (trace_of (text_to_image_notebook L' prompt0 prompt' negative_prompt' seed' (w', []))))
   \<and> precedes is_manual_seed is_pipeline (events (trace_of (text_to_image_notebook L' prompt0 prompt' negative_prompt' seed' (w', []))))
   \<and> precedes is_random_seed is_pipeline (events (trace_of (text_to_image_notebook L' prompt0 prompt' negative_prompt' seed' (w', []))))
   \<and> precedes is_pipeline is_postprocess (events (trace_of (text_to_image_notebook L' prompt0 prompt' negative_prompt' seed' (w', []))))
   \<and> precedes is_video_write is_display (events (trace_of (text_to_image_notebook L' prompt0 prompt' negative_prompt' seed' (w', []))))"
  unfolding notebook_defs
  by (intro conjI; rule flag_precedes;
      (rule flag_rules | (rule flag_first, (simp; fail))
       | (rule flag_other, (simp add: grid_rows_def; fail)) | (simp add: grid_rows_def; fail))+)

theorem steps_follow_their_inputs_witness:
  "length (filter is_pipeline (events (trace_of (inpaint_as_written demo_lib ((), []))))) = 1
   \<and> length (filter is_pipeline (events (trace_of (text_to_image_as_written demo_lib ((), []))))) = 2
   \<and> precedes is_construct is_manual_seed (events (trace_of (inpaint_as_written demo_lib ((), []))))
   \<and> precedes is_construct is_random_seed (events (trace_of (inpaint_as_written demo_lib ((), []))))
   \<and> precedes is_construct is_manual_seed (events (trace_of (text_to_image_as_written demo_lib ((), []))))
   \<and> precedes is_construct is_random_seed (events (trace_of (text_to_image_as_written demo_lib ((), []))))
   \<and> precedes is_construct is_pipeline (events (trace_of (inpaint_as_written demo_lib ((), []))))
   \<and> precedes is_manual_seed is_pipeline (events (trace_of (inpaint_as_written demo_lib ((), []))))
   \<and> precedes is_random_seed is_pipeline (events (trace_of (inpaint_as_written demo_lib ((), []))))
   \<and> precedes is_pipeline is_result_grid (events (trace_of (inpaint_as_written demo_lib ((), []))))
   \<and> precedes is_construct is_pipeline (events (trace_of (text_to_image_as_written demo_lib ((), []))))
   \<and> precedes is_manual_seed is_pipeline (events (trace_of (text_to_image_as_written demo_lib ((), []))))
   \<and> precedes is_random_seed is_pipeline (events (trace_of (text_to_image_as_written demo_lib ((), []))))
   \<and> precedes is_pipeline is_postprocess (events (trace_of (text_to_image_as_written demo_lib ((), []))))
   \<and> precedes is_video_write is_display (events (trace_of (text_to_image_as_written demo_lib ((), []))))"
  using steps_follow_their_inputs
          [where L = demo_lib and prompt = inpaint_prompts
             and negative_prompt = negative_prompt_text and seed = 42 and w = "()"
             and L' = demo_lib and ?prompt0.0 = cityscape_prompt
             and prompt' = text_to_image_prompts and negative_prompt' = negative_prompt_text
             and seed' = 1337 and w' = "()"]
  by (simp add: run_simps)

text \<open>
  C8 as stated has every run go through "construct, set parameters, call, post-process,
  display" once, in this order, with no display before post-processing. With libraries
  in which every call succeeds, the text-to-image notebook as written shows the image
  of its first call (the value of \<open>model(...)[0]\<close>) before anything is post-processed
  and then calls the pipeline a second time, and the inpainting notebook makes and
  shows a grid of the source image and the mask before it calls the pipeline.
\<close>

theorem steps_in_one_fixed_order_counterexample:
  "List.map_filter phase (events (trace_of (text_to_image_as_written demo_lib ((), []))))
     = [0, 1, 1, 2, 4, 2, 3, 3, 3, 4]
   \<and> \<not> fixed_order (events (trace_of (text_to_image_as_written demo_lib ((), []))))
   \<and> \<not> precedes is_postprocess is_shown
          (events (trace_of (text_to_image_as_written demo_lib ((), []))))
   \<and> List.map_filter phase (events (trace_of (inpaint_as_written demo_lib ((), []))))
     = [0, 1, 1, 3, 4, 2, 3, 4]
   \<and> \<not> fixed_order (events (trace_of (inpaint_as_written demo_lib ((), []))))"
  by (simp add: run_simps fixed_order_def)

end
